theory Spec2Isabelle
  imports Main
begin

section \<open>Data model\<close>

text \<open>
  The package \<open>cmd\<close> of wpi-sched turns the rows of a Workday schedule export into an
  iCalendar document. Go strings are byte sequences, modelled as \<open>string\<close>; Go's \<open>int\<close>
  is modelled as \<open>int\<close> (the indices that occur are far below the 64-bit bound).
\<close>

definition MEETING_COL :: string where "MEETING_COL = ''Meeting Patterns''"
definition DESC_COL :: string where "DESC_COL = ''Course Listing''"
definition START_DATE_COL :: string where "START_DATE_COL = ''Start Date''"
definition END_DATE_COL :: string where "END_DATE_COL = ''End Date''"
definition INSTRUCTOR_COL :: string where "INSTRUCTOR_COL = ''Instructor''"
definition TIMEZONE :: string where "TIMEZONE = ''America/New_York''"

record Course =
  Description :: string
  Meeting :: string
  StartDate :: string
  EndDate :: string

text \<open>
  Every \<open>fmt.Errorf\<close> site of the package is one constructor, carrying the value the
  message prints. \<open>TimeParseError\<close> is the error of \<open>time.Parse\<close>, and
  \<open>IndexOutOfRange\<close> and \<open>SliceOutOfRange\<close> are the run-time panics of an index or
  slice expression out of bounds.
\<close>

datatype error =
    UnableToFindColumn string
  | UnableToParseColumns error
  | ExpectedThreeParts nat
  | UnableToParseDay string
  | ExpectedTwoTimes nat
  | TimeParseError string
  | IndexOutOfRange
  | SliceOutOfRange

section \<open>Row extraction\<close>

text \<open>
  A Go \<open>map[string]int\<close> is a partial map. Reading a key that is absent yields the zero
  value of \<open>int\<close>.
\<close>

type_synonym cols = "string \<rightharpoonup> int"

definition mapGet :: "cols \<Rightarrow> string \<Rightarrow> int" where
  "mapGet m k = (case m k of None \<Rightarrow> 0 | Some v \<Rightarrow> v)"

definition initCols :: cols where
  "initCols = [MEETING_COL \<mapsto> -1, DESC_COL \<mapsto> -1, START_DATE_COL \<mapsto> -1, END_DATE_COL \<mapsto> -1]"

text \<open>
  The \<open>switch\<close> of \<open>getColumns\<close> on one cell: \<open>i\<close> is the index of the row, \<open>j\<close> the
  index of the cell. The state is the pair of \<open>cols\<close> and \<open>startRow\<close>.
\<close>

fun switchCell :: "int \<Rightarrow> int \<Rightarrow> string \<Rightarrow> cols \<times> int \<Rightarrow> cols \<times> int" where
  "switchCell i j colCell (cs, startRow) =
     (if colCell = DESC_COL then (cs(DESC_COL \<mapsto> j), i + 1)
      else if colCell = MEETING_COL then (cs(MEETING_COL \<mapsto> j), i + 1)
      else if colCell = START_DATE_COL then (cs(START_DATE_COL \<mapsto> j), i + 1)
      else if colCell = END_DATE_COL then (cs(END_DATE_COL \<mapsto> j), i + 1)
      else if colCell = INSTRUCTOR_COL then (cs(INSTRUCTOR_COL \<mapsto> j), i + 1)
      else (cs, startRow))"

text \<open>The inner loop over the cells of row \<open>i\<close>, from cell index \<open>j\<close> on.\<close>

fun scanCells :: "int \<Rightarrow> int \<Rightarrow> string list \<Rightarrow> cols \<times> int \<Rightarrow> cols \<times> int" where
  "scanCells i j [] st = st"
| "scanCells i j (colCell # cells) st = scanCells i (j + 1) cells (switchCell i j colCell st)"

text \<open>The outer loop: it is left after the first row that set \<open>startRow\<close>.\<close>

fun scanRows :: "int \<Rightarrow> string list list \<Rightarrow> cols \<times> int \<Rightarrow> cols \<times> int" where
  "scanRows i [] st = st"
| "scanRows i (row # rows) st =
     (let st' = scanCells i 0 row st
      in if snd st' \<noteq> -1 then st' else scanRows (i + 1) rows st')"

text \<open>
  The final check ranges over the keys of the map. Go visits them in an unspecified
  order, so which missing column the error names is not determined; the model reports
  the first one in the order of declaration. Whether an error is returned does not
  depend on the order.
\<close>

definition colKeys :: "string list" where
  "colKeys = [MEETING_COL, DESC_COL, START_DATE_COL, END_DATE_COL, INSTRUCTOR_COL]"

definition getColumns :: "string list list \<Rightarrow> error + (cols \<times> int)" where
  "getColumns rows =
     (let (cs, startRow) = scanRows 0 rows (initCols, -1)
      in (case find (\<lambda>k. cs k = Some (-1)) colKeys of
            Some k \<Rightarrow> Inl (UnableToFindColumn k)
          | None \<Rightarrow> Inr (cs, startRow)))"

text \<open>An index expression \<open>row[i]\<close> panics outside the bounds of the slice.\<close>

definition index :: "'a list \<Rightarrow> int \<Rightarrow> error + 'a" where
  "index xs i = (if 0 \<le> i \<and> i < int (length xs) then Inr (xs ! nat i) else Inl IndexOutOfRange)"

text \<open>The slice expression \<open>rows[startRow:]\<close>.\<close>

definition sliceFrom :: "'a list \<Rightarrow> int \<Rightarrow> error + 'a list" where
  "sliceFrom xs i = (if 0 \<le> i \<and> i \<le> int (length xs) then Inr (drop (nat i) xs) else Inl SliceOutOfRange)"

text \<open>\<open>strings.Join\<close> with a separator.\<close>

fun Join :: "string list \<Rightarrow> string \<Rightarrow> string" where
  "Join [] sep = []"
| "Join [x] sep = x"
| "Join (x # y # xs) sep = x @ sep @ Join (y # xs) sep"

text \<open>
  The body of the loop of \<open>GetCourses\<close> for one row that passed the length test. The
  cells are read in the order of the source: description, instructor (twice when it is
  not empty), meeting, start date, end date.
\<close>

definition courseOfRow ::
  "int \<Rightarrow> int \<Rightarrow> int \<Rightarrow> int \<Rightarrow> int \<Rightarrow> string list \<Rightarrow> error + Course" where
  "courseOfRow descriptionCol instructorCol meetingCol startDateCol endDateCol row =
     (case index row descriptionCol of Inl e \<Rightarrow> Inl e | Inr d \<Rightarrow>
     (case index row instructorCol of Inl e \<Rightarrow> Inl e | Inr ins \<Rightarrow>
     (let descSlice = (if ins \<noteq> [] then [d, ins] else [d]) in
     (case index row meetingCol of Inl e \<Rightarrow> Inl e | Inr m \<Rightarrow>
     (case index row startDateCol of Inl e \<Rightarrow> Inl e | Inr sd \<Rightarrow>
     (case index row endDateCol of Inl e \<Rightarrow> Inl e | Inr ed \<Rightarrow>
        Inr \<lparr>Description = Join descSlice '' - '', Meeting = m, StartDate = sd,
              EndDate = ed\<rparr>))))))"

fun collectCourses ::
  "int \<Rightarrow> int \<Rightarrow> int \<Rightarrow> int \<Rightarrow> int \<Rightarrow> string list list \<Rightarrow> Course list \<Rightarrow> error + Course list" where
  "collectCourses dc ic mc sc ec [] courses = Inr courses"
| "collectCourses dc ic mc sc ec (row # rows) courses =
     (if int (length row) \<le> ec then Inr courses
      else (case courseOfRow dc ic mc sc ec row of
              Inl e \<Rightarrow> Inl e
            | Inr c \<Rightarrow> collectCourses dc ic mc sc ec rows (courses @ [c])))"

text \<open>
  \<open>GetCourses\<close> on the rows of the first sheet (reading them out of the workbook is
  the spreadsheet library's work).
\<close>

definition GetCourses :: "string list list \<Rightarrow> error + Course list" where
  "GetCourses rows =
     (case getColumns rows of
        Inl err \<Rightarrow> Inl (UnableToParseColumns err)
      | Inr (cs, startRow) \<Rightarrow>
          let startDateCol = mapGet cs START_DATE_COL;
              endDateCol = mapGet cs END_DATE_COL;
              meetingCol = mapGet cs MEETING_COL;
              descriptionCol = mapGet cs DESC_COL;
              instructorCol = mapGet cs INSTRUCTOR_COL
          in (case sliceFrom rows startRow of
                Inl e \<Rightarrow> Inl e
              | Inr rest \<Rightarrow>
                  collectCourses descriptionCol instructorCol meetingCol startDateCol endDateCol
                    rest []))"

section \<open>The string functions of the Go library\<close>

text \<open>
  \<open>strings.Split\<close> (and \<open>strings.SplitSeq\<close>, which yields the same pieces in the same
  order) for a separator of one byte, which is how the package calls it: the pieces
  between the separators, one more than there are separators.
\<close>

fun Split :: "string \<Rightarrow> char \<Rightarrow> string list" where
  "Split [] sep = [[]]"
| "Split (c # s) sep =
     (if c = sep then [] # Split s sep
      else (case Split s sep of [] \<Rightarrow> [[c]] | x # xs \<Rightarrow> (c # x) # xs))"

text \<open>
  \<open>strings.TrimSpace\<close> removes the leading and trailing white space runes of Unicode.
  On the bytes of the string these are the six ASCII characters tab, line feed, vertical
  tab, form feed, carriage return and space, and the UTF-8 encodings of U+0085, U+00A0,
  U+1680, U+2000 to U+200A, U+2028, U+2029, U+202F, U+205F and U+3000.
\<close>

definition spaceRunes :: "string list" where
  "spaceRunes =
     [[CHR 0x09], [CHR 0x0A], [CHR 0x0B], [CHR 0x0C], [CHR 0x0D], [CHR 0x20],
      [CHR 0xC2, CHR 0x85], [CHR 0xC2, CHR 0xA0], [CHR 0xE1, CHR 0x9A, CHR 0x80],
      [CHR 0xE2, CHR 0x80, CHR 0x80], [CHR 0xE2, CHR 0x80, CHR 0x81],
      [CHR 0xE2, CHR 0x80, CHR 0x82], [CHR 0xE2, CHR 0x80, CHR 0x83],
      [CHR 0xE2, CHR 0x80, CHR 0x84], [CHR 0xE2, CHR 0x80, CHR 0x85],
      [CHR 0xE2, CHR 0x80, CHR 0x86], [CHR 0xE2, CHR 0x80, CHR 0x87],
      [CHR 0xE2, CHR 0x80, CHR 0x88], [CHR 0xE2, CHR 0x80, CHR 0x89],
      [CHR 0xE2, CHR 0x80, CHR 0x8A], [CHR 0xE2, CHR 0x80, CHR 0xA8],
      [CHR 0xE2, CHR 0x80, CHR 0xA9], [CHR 0xE2, CHR 0x80, CHR 0xAF],
      [CHR 0xE2, CHR 0x81, CHR 0x9F], [CHR 0xE3, CHR 0x80, CHR 0x80]]"

text \<open>
  The number of bytes of the rune of \<open>runes\<close> the string starts with, 0 when it starts
  with none of them.
\<close>

definition runeWidth :: "string list \<Rightarrow> string \<Rightarrow> nat" where
  "runeWidth runes s =
     (case find (\<lambda>r. r \<noteq> [] \<and> take (length r) s = r) runes of
        None \<Rightarrow> 0
      | Some r \<Rightarrow> length r)"

function trimLeft :: "string list \<Rightarrow> string \<Rightarrow> string" where
  "trimLeft runes s =
     (if runeWidth runes s = 0 \<or> s = [] then s else trimLeft runes (drop (runeWidth runes s) s))"
  by pat_completeness auto
termination
  by (relation "measure (\<lambda>(runes, s). length s)") auto

declare trimLeft.simps [simp del]

text \<open>The trailing runes are the leading runes of the reversed string, bytes reversed.\<close>

definition TrimSpace :: "string \<Rightarrow> string" where
  "TrimSpace s = rev (trimLeft (map rev spaceRunes) (rev (trimLeft spaceRunes s)))"

text \<open>
  \<open>sanitizeUID\<close>: every maximal run of bytes that are not ASCII letters or digits becomes
  one underscore (the regular expression \<open>[^a-zA-Z0-9]+\<close>; a rune outside ASCII is made
  of such bytes only), then \<open>strings.Trim\<close> removes the underscores at both ends.
\<close>

definition alnum :: "char \<Rightarrow> bool" where
  "alnum c = (let n = (of_char c :: nat)
              in (97 \<le> n \<and> n \<le> 122) \<or> (65 \<le> n \<and> n \<le> 90) \<or> (48 \<le> n \<and> n \<le> 57))"

text \<open>\<open>inRun\<close> says that the bytes just before belong to a run already replaced.\<close>

fun ReplaceAllString :: "bool \<Rightarrow> string \<Rightarrow> string" where
  "ReplaceAllString inRun [] = []"
| "ReplaceAllString inRun (c # s) =
     (if alnum c then c # ReplaceAllString False s
      else if inRun then ReplaceAllString True s
      else CHR ''_'' # ReplaceAllString True s)"

definition Trim :: "string \<Rightarrow> char \<Rightarrow> string" where
  "Trim s cutset = rev (dropWhile (\<lambda>c. c = cutset) (rev (dropWhile (\<lambda>c. c = cutset) s)))"

definition sanitizeUID :: "string \<Rightarrow> string \<Rightarrow> string" where
  "sanitizeUID desc days = Trim (ReplaceAllString False (desc @ days)) (CHR ''_'') @ ''@wpi.edu''"

section \<open>The time functions of the Go library\<close>

text \<open>
  A \<open>time.Time\<close> in UTC, to the second: the number of days since 1 January 1970 and
  the clock reading. \<open>time.Weekday\<close> is an integer type with \<open>Sunday = 0\<close>.
\<close>

record Time =
  days :: int
  hour :: nat
  minute :: nat
  second :: nat

type_synonym Weekday = int

definition Sunday :: Weekday where "Sunday = 0"
definition Monday :: Weekday where "Monday = 1"
definition Tuesday :: Weekday where "Tuesday = 2"
definition Wednesday :: Weekday where "Wednesday = 3"
definition Thursday :: Weekday where "Thursday = 4"
definition Friday :: Weekday where "Friday = 5"
definition Saturday :: Weekday where "Saturday = 6"

text \<open>The day number of a date of the proleptic Gregorian calendar, and back.\<close>

definition daysFromCivil :: "int \<Rightarrow> int \<Rightarrow> int \<Rightarrow> int" where
  "daysFromCivil y m d =
     (let y' = (if m \<le> 2 then y - 1 else y);
          era = y' div 400;
          yoe = y' - era * 400;
          doy = (153 * (if m > 2 then m - 3 else m + 9) + 2) div 5 + d - 1;
          doe = yoe * 365 + yoe div 4 - yoe div 100 + doy
      in era * 146097 + doe - 719468)"

definition civilFromDays :: "int \<Rightarrow> int \<times> int \<times> int" where
  "civilFromDays z =
     (let z' = z + 719468;
          era = z' div 146097;
          doe = z' - era * 146097;
          yoe = (doe - doe div 1460 + doe div 36524 - doe div 146096) div 365;
          doy = doe - (365 * yoe + yoe div 4 - yoe div 100);
          mp = (5 * doy + 2) div 153;
          d = doy - (153 * mp + 2) div 5 + 1;
          m = (if mp < 10 then mp + 3 else mp - 9)
      in (if m \<le> 2 then yoe + era * 400 + 1 else yoe + era * 400, m, d))"

text \<open>\<open>t.Weekday()\<close>: 1 January 1970 was a Thursday.\<close>

definition WeekdayOf :: "Time \<Rightarrow> Weekday" where
  "WeekdayOf t = (days t + 4) mod 7"

text \<open>
  \<open>t.AddDate(0, 0, n)\<close>: the library adds \<open>n\<close> to the day of the month and normalises
  the date, which moves the day number by \<open>n\<close> and keeps the clock reading.
\<close>

definition AddDays :: "Time \<Rightarrow> int \<Rightarrow> Time" where
  "AddDays t n = t\<lparr>days := days t + n\<rparr>"

subsection \<open>Parsing\<close>

definition isDigit :: "char \<Rightarrow> bool" where
  "isDigit c = (48 \<le> (of_char c :: nat) \<and> (of_char c :: nat) \<le> 57)"

definition digitVal :: "char \<Rightarrow> nat" where
  "digitVal c = of_char c - 48"

text \<open>
  \<open>getnum\<close> of the library reads one or two decimal digits; with \<open>fixed\<close> it insists on
  two. \<open>None\<close> is its error.
\<close>

fun getnum :: "string \<Rightarrow> bool \<Rightarrow> (nat \<times> string) option" where
  "getnum [] fixed = None"
| "getnum [a] fixed = (if isDigit a \<and> \<not> fixed then Some (digitVal a, []) else None)"
| "getnum (a # b # s) fixed =
     (if \<not> isDigit a then None
      else if \<not> isDigit b then (if fixed then None else Some (digitVal a, b # s))
      else Some (digitVal a * 10 + digitVal b, s))"

text \<open>\<open>atoi\<close> of the library: an optional sign, then decimal digits only.\<close>

definition atoi :: "string \<Rightarrow> int option" where
  "atoi s =
     (let neg = (s \<noteq> [] \<and> hd s = CHR ''-'');
          body = (if s \<noteq> [] \<and> (hd s = CHR ''-'' \<or> hd s = CHR ''+'') then tl s else s);
          x = foldl (\<lambda>a c. 10 * a + int (digitVal c)) 0 body
      in if list_all isDigit body then Some (if neg then - x else x) else None)"

text \<open>A literal byte of the layout, other than a space, must be the next byte of the value.\<close>

fun skip :: "string \<Rightarrow> char \<Rightarrow> string option" where
  "skip [] p = None"
| "skip (c # s) p = (if c = p then Some s else None)"

text \<open>
  A space of the layout stands for any run of spaces of the value, also the empty run at
  the end of the value; before any other byte it is an error.
\<close>

fun skipSpace :: "string \<Rightarrow> string option" where
  "skipSpace [] = Some []"
| "skipSpace (c # s) = (if c = CHR '' '' then Some (dropWhile (\<lambda>x. x = CHR '' '') s) else None)"

definition isLeap :: "int \<Rightarrow> bool" where
  "isLeap year = (year mod 4 = 0 \<and> (year mod 100 \<noteq> 0 \<or> year mod 400 = 0))"

definition daysIn :: "nat \<Rightarrow> int \<Rightarrow> nat" where
  "daysIn m year =
     (if m = 2 then (if isLeap year then 29 else 28)
      else if m = 4 \<or> m = 6 \<or> m = 9 \<or> m = 11 then 30 else 31)"

text \<open>
  \<open>time.Parse("01-02-06", value)\<close>: a two-digit month, a two-digit day and a two-digit
  year, which means 1969 to 1999 from 69 on and 2000 to 2068 below. The month has to be
  1 to 12 and the day has to exist in that month; nothing may follow the year.
\<close>

definition ParseDate :: "string \<Rightarrow> error + Time" where
  "ParseDate value =
     (case getnum value True of None \<Rightarrow> Inl (TimeParseError value) | Some (month, v1) \<Rightarrow>
     (if month \<le> 0 \<or> 12 < month then Inl (TimeParseError value) else
     (case skip v1 (CHR ''-'') of None \<Rightarrow> Inl (TimeParseError value) | Some v2 \<Rightarrow>
     (case getnum v2 True of None \<Rightarrow> Inl (TimeParseError value) | Some (day, v3) \<Rightarrow>
     (case skip v3 (CHR ''-'') of None \<Rightarrow> Inl (TimeParseError value) | Some v4 \<Rightarrow>
     (if length v4 < 2 then Inl (TimeParseError value) else
     (case atoi (take 2 v4) of None \<Rightarrow> Inl (TimeParseError value) | Some yy \<Rightarrow>
     (let year = (if yy \<ge> 69 then yy + 1900 else yy + 2000) in
      if drop 2 v4 \<noteq> [] then Inl (TimeParseError value)
      else if day < 1 \<or> day > daysIn month year then Inl (TimeParseError value)
      else Inr \<lparr>days = daysFromCivil year (int month) (int day),
                hour = 0, minute = 0, second = 0\<rparr>))))))))"

text \<open>
  \<open>time.Parse("3:04 PM", value)\<close>: an hour of one or two digits up to 12, a colon, a
  two-digit minute below 60, spaces, and \<open>AM\<close> or \<open>PM\<close> in capitals. The date is
  1 January of the year 0.
\<close>

definition ParseClock :: "string \<Rightarrow> error + Time" where
  "ParseClock value =
     (case getnum value False of None \<Rightarrow> Inl (TimeParseError value) | Some (h, v1) \<Rightarrow>
     (if 12 < h then Inl (TimeParseError value) else
     (case skip v1 (CHR '':'') of None \<Rightarrow> Inl (TimeParseError value) | Some v2 \<Rightarrow>
     (case getnum v2 True of None \<Rightarrow> Inl (TimeParseError value) | Some (mi, v3) \<Rightarrow>
     (if 60 \<le> mi then Inl (TimeParseError value) else
     (case skipSpace v3 of None \<Rightarrow> Inl (TimeParseError value) | Some v4 \<Rightarrow>
     (if length v4 < 2 then Inl (TimeParseError value)
      else if take 2 v4 \<noteq> ''PM'' \<and> take 2 v4 \<noteq> ''AM'' then Inl (TimeParseError value)
      else if drop 2 v4 \<noteq> [] then Inl (TimeParseError value)
      else
        (let pmSet = (take 2 v4 = ''PM'');
             h' = (if pmSet \<and> h < 12 then h + 12 else if \<not> pmSet \<and> h = 12 then 0 else h)
         in Inr \<lparr>days = daysFromCivil 0 1 1, hour = h', minute = mi, second = 0\<rparr>))))))))"

subsection \<open>Formatting\<close>

definition digitChar :: "nat \<Rightarrow> char" where
  "digitChar n = char_of (48 + n mod 10)"

text \<open>A number in decimal, padded with zeros on the left up to \<open>width\<close> digits.\<close>

fun appendInt :: "nat \<Rightarrow> nat \<Rightarrow> string" where
  "appendInt x width =
     (if x < 10 then replicate (width - 1) (CHR ''0'') @ [digitChar x]
      else appendInt (x div 10) (width - 1) @ [digitChar x])"

declare appendInt.simps [simp del]

text \<open>
  \<open>t.Format("20060102")\<close>. The years that occur are those \<open>ParseDate\<close> yields, moved
  by a few days, so they are positive.
\<close>

definition FormatDate :: "Time \<Rightarrow> string" where
  "FormatDate t =
     (case civilFromDays (days t) of
        (y, m, d) \<Rightarrow> appendInt (nat y) 4 @ appendInt (nat m) 2 @ appendInt (nat d) 2)"

text \<open>\<open>t.Format("150405")\<close>.\<close>

definition FormatClock :: "Time \<Rightarrow> string" where
  "FormatClock t = appendInt (hour t) 2 @ appendInt (minute t) 2 @ appendInt (second t) 2"

section \<open>Date and time conversion\<close>

text \<open>
  The loop of \<open>convertStartDate\<close>, with the number of rounds left: it is left as soon as
  the weekday of \<open>t\<close> is one of \<open>validDays\<close>, and moves \<open>t\<close> to the next day otherwise.
\<close>

fun advanceToValid :: "nat \<Rightarrow> Weekday list \<Rightarrow> Time \<Rightarrow> Time" where
  "advanceToValid 0 validDays t = t"
| "advanceToValid (Suc n) validDays t =
     (if WeekdayOf t \<in> set validDays then t else advanceToValid n validDays (AddDays t 1))"

definition convertStartDate :: "string \<Rightarrow> Weekday list \<Rightarrow> error + string" where
  "convertStartDate dateStr validDays =
     (case ParseDate dateStr of
        Inl err \<Rightarrow> Inl err
      | Inr t \<Rightarrow> Inr (FormatDate (advanceToValid 7 validDays t)))"

definition convertDate :: "string \<Rightarrow> error + string" where
  "convertDate dateStr =
     (case ParseDate dateStr of Inl err \<Rightarrow> Inl err | Inr t \<Rightarrow> Inr (FormatDate t))"

definition convertTime :: "string \<Rightarrow> error + string" where
  "convertTime timeStr =
     (case ParseClock timeStr of Inl err \<Rightarrow> Inl err | Inr t \<Rightarrow> Inr (FormatClock t))"

section \<open>Event synthesis\<close>

definition dayMap :: "string \<rightharpoonup> string \<times> Weekday" where
  "dayMap =
     [''M'' \<mapsto> (''MO'', Monday), ''T'' \<mapsto> (''TU'', Tuesday), ''W'' \<mapsto> (''WE'', Wednesday),
      ''R'' \<mapsto> (''TH'', Thursday), ''F'' \<mapsto> (''FR'', Friday)]"

text \<open>
  The loop over the day letters of the frequency part; the state is the pair of
  \<open>parsedFreq\<close> and \<open>validWeekdays\<close>.
\<close>

fun parseDays ::
  "string list \<Rightarrow> string list \<times> Weekday list \<Rightarrow> error + (string list \<times> Weekday list)" where
  "parseDays [] st = Inr st"
| "parseDays (d # ds) (parsedFreq, validWeekdays) =
     (case dayMap d of
        None \<Rightarrow> Inl (UnableToParseDay d)
      | Some (ical, wd) \<Rightarrow> parseDays ds (parsedFreq @ [ical], validWeekdays @ [wd]))"

text \<open>
  The values \<open>GetIcal\<close> computes from a course and hands to \<open>fmt.Sprintf\<close>; the time
  stamp is left out, it is read from the clock.
\<close>

record icalArgs =
  a_uid :: string
  a_startDate :: string
  a_startTime :: string
  a_endTime :: string
  a_summary :: string
  a_location :: string
  a_byDay :: string
  a_endDate :: string

text \<open>
  The part of \<open>GetIcal\<close> before the call of \<open>fmt.Sprintf\<close>. \<open>Inr None\<close> is the
  return of the empty string for a course with no meeting pattern.
\<close>

definition GetIcal_args :: "Course \<Rightarrow> error + icalArgs option" where
  "GetIcal_args c =
     (if Meeting c = [] then Inr None else
     (let parsedMeet = Split (Meeting c) (CHR ''|'') in
      if length parsedMeet < 3 then Inl (ExpectedThreeParts (length parsedMeet)) else
     (let freq = TrimSpace (parsedMeet ! 0) in
     (case parseDays (Split freq (CHR ''-'')) ([], []) of Inl err \<Rightarrow> Inl err
      | Inr (parsedFreq, validWeekdays) \<Rightarrow>
     (let byDay = Join parsedFreq '','' in
     (case convertDate (EndDate c) of Inl err \<Rightarrow> Inl err | Inr endDate \<Rightarrow>
     (case convertStartDate (StartDate c) validWeekdays of Inl err \<Rightarrow> Inl err
      | Inr startDate \<Rightarrow>
     (let times = Split (TrimSpace (parsedMeet ! 1)) (CHR ''-'') in
      if length times < 2 then Inl (ExpectedTwoTimes (length parsedMeet)) else
     (case convertTime (TrimSpace (times ! 0)) of Inl err \<Rightarrow> Inl err | Inr startTime \<Rightarrow>
     (case convertTime (TrimSpace (times ! 1)) of Inl err \<Rightarrow> Inl err | Inr endTime \<Rightarrow>
     (let location = TrimSpace (parsedMeet ! 2) in
      Inr (Some \<lparr>a_uid = sanitizeUID (Description c) byDay, a_startDate = startDate,
                 a_startTime = startTime, a_endTime = endTime, a_summary = Description c,
                 a_location = location, a_byDay = byDay, a_endDate = endDate\<rparr>))))))))))))"

text \<open>The call of \<open>fmt.Sprintf\<close>: the event block, every line ended by a line feed.\<close>

definition Sprintf_event :: "string \<Rightarrow> icalArgs \<Rightarrow> string" where
  "Sprintf_event stamp a =
     ''BEGIN:VEVENT\<newline>'' @
     ''UID:'' @ a_uid a @ ''\<newline>'' @
     ''DTSTAMP:'' @ stamp @ ''\<newline>'' @
     ''DTSTART;TZID='' @ TIMEZONE @ '':'' @ a_startDate a @ ''T'' @ a_startTime a @ ''\<newline>'' @
     ''DTEND;TZID='' @ TIMEZONE @ '':'' @ a_startDate a @ ''T'' @ a_endTime a @ ''\<newline>'' @
     ''SUMMARY:'' @ a_summary a @ ''\<newline>'' @
     ''LOCATION:'' @ a_location a @ ''\<newline>'' @
     ''RRULE:FREQ=WEEKLY;BYDAY='' @ a_byDay a @ '';UNTIL='' @ a_endDate a @ ''T235959\<newline>'' @
     ''BEGIN:VALARM\<newline>'' @
     ''TRIGGER:-PT15M\<newline>'' @
     ''ACTION:DISPLAY\<newline>'' @
     ''DESCRIPTION:Reminder - '' @ a_summary a @ '' starts soon\<newline>'' @
     ''END:VALARM\<newline>'' @
     ''END:VEVENT\<newline>''"

text \<open>
  The clock: \<open>clock n\<close> is what the \<open>n\<close>-th call of
  \<open>time.Now().UTC().Format("20060102T150405Z")\<close> of a run yields, and the state threaded
  through \<open>GetIcal\<close> is the number of calls made so far. The clock is read only when an
  event block is produced.
\<close>

type_synonym clock = "nat \<Rightarrow> string"

definition GetIcal :: "clock \<Rightarrow> Course \<Rightarrow> nat \<Rightarrow> (error + string) \<times> nat" where
  "GetIcal clock c n =
     (case GetIcal_args c of
        Inl err \<Rightarrow> (Inl err, n)
      | Inr None \<Rightarrow> (Inr [], n)
      | Inr (Some a) \<Rightarrow> (Inr (Sprintf_event (clock n) a), Suc n))"

section \<open>The document writer\<close>

text \<open>
  The writer is a buffer in memory, as in the WebAssembly entry point, whose writes
  never fail; \<open>w\<close> is its content. The result is the content after the call and the error
  returned.
\<close>

fun writeEvents :: "clock \<Rightarrow> Course list \<Rightarrow> nat \<Rightarrow> string \<Rightarrow> string \<times> error option" where
  "writeEvents clock [] n w = (w, None)"
| "writeEvents clock (c # courses) n w =
     (case GetIcal clock c n of
        (Inl err, n') \<Rightarrow> (w, Some err)
      | (Inr e, n') \<Rightarrow> writeEvents clock courses n' (w @ e))"

definition icalHeader :: string where
  "icalHeader = ''BEGIN:VCALENDAR\<newline>VERSION:2.0\<newline>CALSCALE:GREGORIAN\<newline>''"

definition icalFooter :: string where
  "icalFooter = ''END:VCALENDAR\<newline>''"

definition WriteIcalBuf :: "clock \<Rightarrow> Course list \<Rightarrow> string \<Rightarrow> string \<times> error option" where
  "WriteIcalBuf clock courses w =
     (case writeEvents clock courses 0 (w @ icalHeader) of
        (w', Some err) \<Rightarrow> (w', Some err)
      | (w', None) \<Rightarrow> (w' @ icalFooter, None))"

section \<open>The earlier version of the event synthesis\<close>

text \<open>
  The source holds an earlier version of the package as well. Its \<open>sanitizeUID\<close> takes
  the description only, and its \<open>GetIcal\<close> has no case for the empty meeting pattern,
  takes the start date as it is, parses the times before the dates and reads the first
  time for the end of the event too.
\<close>

definition sanitizeUID_old :: "string \<Rightarrow> string" where
  "sanitizeUID_old desc = Trim (ReplaceAllString False desc) (CHR ''_'') @ ''@wpi.edu''"

definition dayMap_old :: "string \<rightharpoonup> string" where
  "dayMap_old = [''M'' \<mapsto> ''MO'', ''T'' \<mapsto> ''TU'', ''W'' \<mapsto> ''WE'', ''R'' \<mapsto> ''TH'', ''F'' \<mapsto> ''FR'']"

fun parseDays_old :: "string list \<Rightarrow> string list \<Rightarrow> error + string list" where
  "parseDays_old [] parsedFreq = Inr parsedFreq"
| "parseDays_old (d # ds) parsedFreq =
     (case dayMap_old d of
        None \<Rightarrow> Inl (UnableToParseDay d)
      | Some day \<Rightarrow> parseDays_old ds (parsedFreq @ [day]))"

definition GetIcal_old_args :: "Course \<Rightarrow> error + icalArgs" where
  "GetIcal_old_args c =
     (let parsedMeet = Split (Meeting c) (CHR ''|'') in
      if length parsedMeet < 3 then Inl (ExpectedThreeParts (length parsedMeet)) else
     (let freq = TrimSpace (parsedMeet ! 0) in
     (case parseDays_old (Split freq (CHR ''-'')) [] of Inl err \<Rightarrow> Inl err
      | Inr parsedFreq \<Rightarrow>
     (let byDay = Join parsedFreq '','';
          times = Split (TrimSpace (parsedMeet ! 1)) (CHR ''-'') in
      if length times < 2 then Inl (ExpectedTwoTimes (length parsedMeet)) else
     (case convertTime (TrimSpace (times ! 0)) of Inl err \<Rightarrow> Inl err | Inr startTime \<Rightarrow>
     (case convertTime (TrimSpace (times ! 0)) of Inl err \<Rightarrow> Inl err | Inr endTime \<Rightarrow>
     (case convertDate (EndDate c) of Inl err \<Rightarrow> Inl err | Inr endDateStr \<Rightarrow>
     (case convertDate (StartDate c) of Inl err \<Rightarrow> Inl err | Inr startDateStr \<Rightarrow>
     (let location = TrimSpace (parsedMeet ! 2) in
      Inr \<lparr>a_uid = sanitizeUID_old (Description c), a_startDate = startDateStr,
           a_startTime = startTime, a_endTime = endTime, a_summary = Description c,
           a_location = location, a_byDay = byDay, a_endDate = endDateStr\<rparr>)))))))))"

text \<open>The earlier template names the time zone itself and has no line feed at its end.\<close>

definition Sprintf_event_old :: "string \<Rightarrow> icalArgs \<Rightarrow> string" where
  "Sprintf_event_old stamp a =
     ''BEGIN:VEVENT\<newline>'' @
     ''UID:'' @ a_uid a @ ''\<newline>'' @
     ''DTSTAMP:'' @ stamp @ ''\<newline>'' @
     ''DTSTART;TZID=America/New_York:'' @ a_startDate a @ ''T'' @ a_startTime a @ ''\<newline>'' @
     ''DTEND;TZID=America/New_York:'' @ a_startDate a @ ''T'' @ a_endTime a @ ''\<newline>'' @
     ''SUMMARY:'' @ a_summary a @ ''\<newline>'' @
     ''LOCATION:'' @ a_location a @ ''\<newline>'' @
     ''RRULE:FREQ=WEEKLY;BYDAY='' @ a_byDay a @ '';UNTIL='' @ a_endDate a @ ''T235959\<newline>'' @
     ''BEGIN:VALARM\<newline>'' @
     ''TRIGGER:-PT15M\<newline>'' @
     ''ACTION:DISPLAY\<newline>'' @
     ''DESCRIPTION:Reminder - '' @ a_summary a @ '' starts soon\<newline>'' @
     ''END:VALARM\<newline>'' @
     ''END:VEVENT''"

definition GetIcal_old :: "clock \<Rightarrow> Course \<Rightarrow> nat \<Rightarrow> (error + string) \<times> nat" where
  "GetIcal_old clock c n =
     (case GetIcal_old_args c of
        Inl err \<Rightarrow> (Inl err, n)
      | Inr a \<Rightarrow> (Inr (Sprintf_event_old (clock n) a), Suc n))"

section \<open>Notions used in the statements\<close>

text \<open>The names \<open>getColumns\<close> looks for, and the four it insists on.\<close>

definition recognised :: "string \<Rightarrow> bool" where
  "recognised c = (c \<in> set colKeys)"

definition requiredCols :: "string list" where
  "requiredCols = [MEETING_COL, DESC_COL, START_DATE_COL, END_DATE_COL]"

text \<open>A row that holds at least one of the five names.\<close>

definition hasHeader :: "string list \<Rightarrow> bool" where
  "hasHeader row = list_ex recognised row"




section \<open>Row extraction: the header scan\<close>

lemmas col_defs = MEETING_COL_def DESC_COL_def START_DATE_COL_def END_DATE_COL_def
  INSTRUCTOR_COL_def

lemma switchCell_recognised: "recognised c \<Longrightarrow> switchCell i j c (cs, sr) = (cs(c \<mapsto> j), i + 1)"
  by (auto simp: recognised_def colKeys_def)

lemma switchCell_plain: "\<not> recognised c \<Longrightarrow> switchCell i j c st = st"
  by (cases st) (auto simp: recognised_def colKeys_def)

declare switchCell.simps [simp del]

lemma scanCells_plain: "\<not> hasHeader row \<Longrightarrow> scanCells i j row st = st"
  by (induction row arbitrary: j st) (simp_all add: hasHeader_def switchCell_plain)

lemma scanCells_startRow: "hasHeader row \<Longrightarrow> snd (scanCells i j row st) = i + 1"
proof (induction row arbitrary: j st)
  case Nil
  then show ?case by (simp add: hasHeader_def)
next
  case (Cons c row)
  obtain cs sr where st: "st = (cs, sr)" by (cases st)
  show ?case
  proof (cases "hasHeader row")
    case True
    then show ?thesis using Cons.IH by simp
  next
    case False
    with Cons.prems have c: "recognised c" by (simp add: hasHeader_def)
    show ?thesis using st scanCells_plain [OF False] switchCell_recognised [OF c] by simp
  qed
qed

lemma scanCells_other: "k \<notin> set row \<Longrightarrow> fst (scanCells i j row st) k = fst st k"
proof (induction row arbitrary: j st)
  case Nil
  then show ?case by simp
next
  case (Cons c row)
  obtain cs sr where st: "st = (cs, sr)" by (cases st)
  from Cons.prems have kc: "k \<noteq> c" and kr: "k \<notin> set row" by auto
  have "fst (switchCell i j c st) k = fst st k"
  proof (cases "recognised c")
    case True
    then show ?thesis using st kc by (simp add: switchCell_recognised)
  next
    case False
    then show ?thesis by (simp add: switchCell_plain)
  qed
  then show ?case using Cons.IH [OF kr] by simp
qed

lemma scanCells_found:
  "k \<in> set row \<Longrightarrow> recognised k \<Longrightarrow>
   \<exists>n < length row. row ! n = k \<and> fst (scanCells i j row st) k = Some (j + int n)"
proof (induction row arbitrary: j st)
  case Nil
  then show ?case by simp
next
  case (Cons c row)
  obtain cs sr where st: "st = (cs, sr)" by (cases st)
  show ?case
  proof (cases "k \<in> set row")
    case True
    from Cons.IH [OF True Cons.prems(2)] obtain n where
      n: "n < length row" "row ! n = k"
         "fst (scanCells i (j + 1) row (switchCell i j c st)) k = Some (j + 1 + int n)"
      by blast
    have "Suc n < length (c # row) \<and> (c # row) ! Suc n = k \<and>
          fst (scanCells i j (c # row) st) k = Some (j + int (Suc n))"
      using n by simp
    then show ?thesis by blast
  next
    case False
    with Cons.prems have kc: "c = k" by simp
    have "fst (scanCells i j (c # row) st) k = Some j"
      using scanCells_other [OF False] st kc switchCell_recognised [OF Cons.prems(2)] by simp
    then have "0 < length (c # row) \<and> (c # row) ! 0 = k \<and>
          fst (scanCells i j (c # row) st) k = Some (j + int 0)"
      using kc by simp
    then show ?thesis by blast
  qed
qed

lemma switchCell_row_index: "fst (switchCell i j c st) = fst (switchCell i' j c st)"
  by (cases st) (simp add: switchCell.simps)

lemma switchCell_fst_cong:
  "fst st = fst st' \<Longrightarrow> fst (switchCell i j c st) = fst (switchCell i' j c st')"
  by (cases st; cases st') (simp add: switchCell.simps)

lemma scanCells_fst_cong:
  "fst st = fst st' \<Longrightarrow> fst (scanCells i j row st) = fst (scanCells i' j row st')"
proof (induction row arbitrary: j st st')
  case Nil
  then show ?case by simp
next
  case (Cons c row)
  have "fst (switchCell i j c st) = fst (switchCell i' j c st')"
    by (rule switchCell_fst_cong [OF Cons.prems])
  from Cons.IH [OF this] show ?case by simp
qed

lemma scanCells_row_index: "fst (scanCells i j row st) = fst (scanCells 0 j row st)"
  by (rule scanCells_fst_cong) simp

lemma scanRows_find:
  "0 \<le> i \<Longrightarrow> scanRows i rows (cs, -1) =
     (case find hasHeader rows of
        None \<Rightarrow> (cs, -1)
      | Some h \<Rightarrow> (fst (scanCells 0 0 h (cs, -1)),
                   i + int (length (takeWhile (\<lambda>r. \<not> hasHeader r) rows)) + 1))"
proof (induction rows arbitrary: i)
  case Nil
  then show ?case by simp
next
  case (Cons row rows)
  show ?case
  proof (cases "hasHeader row")
    case True
    have "snd (scanCells i 0 row (cs, -1)) = i + 1" by (rule scanCells_startRow [OF True])
    moreover have "i + 1 \<noteq> -1" using Cons.prems by simp
    ultimately show ?thesis using True scanCells_row_index [of i 0 row "(cs, -1)"]
      by (simp add: Let_def prod_eq_iff)
  next
    case False
    have "0 \<le> i + 1" using Cons.prems by simp
    from Cons.IH [OF this] show ?thesis
      using False by (simp add: scanCells_plain split: option.splits)
  qed
qed

lemma initCols_required: "k \<in> set requiredCols \<Longrightarrow> initCols k = Some (-1)"
  by (auto simp: requiredCols_def initCols_def col_defs)

lemma initCols_instructor: "initCols INSTRUCTOR_COL = None"
  by (simp add: initCols_def col_defs)

lemma required_recognised: "k \<in> set requiredCols \<Longrightarrow> recognised k"
  by (auto simp: requiredCols_def recognised_def colKeys_def)

lemma colKeys_split: "set colKeys = insert INSTRUCTOR_COL (set requiredCols)"
  by (auto simp: requiredCols_def colKeys_def)

text \<open>What the scan of the header row leaves in the map.\<close>

lemma header_missing_iff:
  assumes "k \<in> set colKeys"
  shows "fst (scanCells 0 0 h (initCols, -1)) k = Some (-1) \<longleftrightarrow> k \<in> set requiredCols \<and> k \<notin> set h"
proof (cases "k \<in> set h")
  case True
  from assms have "recognised k" by (simp add: recognised_def)
  from scanCells_found [OF True this, of 0 0 "(initCols, -1)"]
  show ?thesis using True by auto
next
  case False
  have "fst (scanCells 0 0 h (initCols, -1)) k = initCols k"
    using scanCells_other [OF False, of 0 0 "(initCols, -1)"] by simp
  then show ?thesis
    using False assms initCols_required [of k] initCols_instructor
    by (auto simp: colKeys_split)
qed

lemma find_missing_None_iff:
  "find (\<lambda>k. fst (scanCells 0 0 h (initCols, -1)) k = Some (-1)) colKeys = None
     \<longleftrightarrow> set requiredCols \<subseteq> set h"
proof -
  have "find (\<lambda>k. fst (scanCells 0 0 h (initCols, -1)) k = Some (-1)) colKeys = None
     \<longleftrightarrow> (\<forall>k \<in> set colKeys. \<not> (k \<in> set requiredCols \<and> k \<notin> set h))"
    using header_missing_iff by (auto simp: find_None_iff)
  also have "\<dots> \<longleftrightarrow> set requiredCols \<subseteq> set h"
    by (auto simp: colKeys_split)
  finally show ?thesis .
qed

lemma getColumns_no_header: "find hasHeader rows = None \<Longrightarrow> isl (getColumns rows)"
proof -
  assume "find hasHeader rows = None"
  then have "scanRows 0 rows (initCols, -1) = (initCols, -1)"
    by (simp add: scanRows_find)
  then show ?thesis
    by (simp add: getColumns_def colKeys_def initCols_def col_defs)
qed

lemma getColumns_header:
  assumes "find hasHeader rows = Some h"
  shows "getColumns rows =
    (if set requiredCols \<subseteq> set h
     then Inr (fst (scanCells 0 0 h (initCols, -1)),
               int (length (takeWhile (\<lambda>r. \<not> hasHeader r) rows)) + 1)
     else Inl (UnableToFindColumn
       (the (find (\<lambda>k. fst (scanCells 0 0 h (initCols, -1)) k = Some (-1)) colKeys))))"
proof -
  have sr: "scanRows 0 rows (initCols, -1) =
     (fst (scanCells 0 0 h (initCols, -1)),
      int (length (takeWhile (\<lambda>r. \<not> hasHeader r) rows)) + 1)"
    using assms by (simp add: scanRows_find)
  show ?thesis
  proof (cases "set requiredCols \<subseteq> set h")
    case True
    then have "find (\<lambda>k. fst (scanCells 0 0 h (initCols, -1)) k = Some (-1)) colKeys = None"
      by (simp add: find_missing_None_iff)
    then show ?thesis using True sr by (simp add: getColumns_def)
  next
    case False
    then have "find (\<lambda>k. fst (scanCells 0 0 h (initCols, -1)) k = Some (-1)) colKeys \<noteq> None"
      by (simp add: find_missing_None_iff)
    then obtain k where
      "find (\<lambda>k. fst (scanCells 0 0 h (initCols, -1)) k = Some (-1)) colKeys = Some k"
      by blast
    then show ?thesis using False sr by (simp add: getColumns_def)
  qed
qed

lemma find_header_append:
  "\<forall>r \<in> set pre. \<not> hasHeader r \<Longrightarrow> hasHeader h \<Longrightarrow>
   find hasHeader (pre @ h # post) = Some h \<and>
   takeWhile (\<lambda>r. \<not> hasHeader r) (pre @ h # post) = pre"
  by (induction pre) auto

lemma required_hasHeader: "set requiredCols \<subseteq> set h \<Longrightarrow> hasHeader h"
  by (auto simp: hasHeader_def list_ex_iff requiredCols_def recognised_def colKeys_def)

text \<open>
  Claim C3, as the code has it. \<open>getColumns\<close> stops scanning after the first row that holds
  any of the five names, so it fails exactly when there is no such row or when that row
  lacks one of the four required names; names in later rows are not looked at. When the
  rows before the header hold none of the names and the header holds the four required
  ones, the indices resolved are those of the header row alone, whatever comes before or
  after it, and only the start row moves with the position of the header.
\<close>

theorem getColumns_fails_iff_header_incomplete:
  "(isl (getColumns rows) \<longleftrightarrow>
      (case find hasHeader rows of None \<Rightarrow> True | Some h \<Rightarrow> \<not> set requiredCols \<subseteq> set h))
   \<and> ((\<forall>r \<in> set pre. \<not> hasHeader r) \<and> set requiredCols \<subseteq> set h \<longrightarrow>
        (\<exists>cs. getColumns (pre @ h # post) = Inr (cs, int (length pre) + 1)
            \<and> getColumns [h] = Inr (cs, 1)
            \<and> (\<forall>k \<in> set requiredCols. \<exists>n < length h. h ! n = k \<and> cs k = Some (int n))))"
proof (intro conjI impI)
  show "isl (getColumns rows) \<longleftrightarrow>
      (case find hasHeader rows of None \<Rightarrow> True | Some h \<Rightarrow> \<not> set requiredCols \<subseteq> set h)"
  proof (cases "find hasHeader rows")
    case None
    then show ?thesis using getColumns_no_header by simp
  next
    case (Some h)
    then show ?thesis by (simp add: getColumns_header)
  qed
next
  assume a: "(\<forall>r \<in> set pre. \<not> hasHeader r) \<and> set requiredCols \<subseteq> set h"
  then have hh: "hasHeader h" by (simp add: required_hasHeader)
  let ?cs = "fst (scanCells 0 0 h (initCols, -1))"
  have f1: "find hasHeader (pre @ h # post) = Some h"
    and t1: "takeWhile (\<lambda>r. \<not> hasHeader r) (pre @ h # post) = pre"
    using find_header_append [of pre h post] a hh by simp_all
  have g1: "getColumns (pre @ h # post) = Inr (?cs, int (length pre) + 1)"
    using getColumns_header [OF f1] a t1 by simp
  have "find hasHeader [h] = Some h" using hh by simp
  from getColumns_header [OF this] have g2: "getColumns [h] = Inr (?cs, 1)"
    using a hh by simp
  have g3: "\<forall>k \<in> set requiredCols. \<exists>n < length h. h ! n = k \<and> ?cs k = Some (int n)"
  proof
    fix k assume k: "k \<in> set requiredCols"
    with a have "k \<in> set h" by auto
    from scanCells_found [OF this required_recognised [OF k], of 0 0 "(initCols, -1)"]
    show "\<exists>n < length h. h ! n = k \<and> ?cs k = Some (int n)" by simp
  qed
  from g1 g2 g3
  show "\<exists>cs. getColumns (pre @ h # post) = Inr (cs, int (length pre) + 1)
            \<and> getColumns [h] = Inr (cs, 1)
            \<and> (\<forall>k \<in> set requiredCols. \<exists>n < length h. h ! n = k \<and> cs k = Some (int n))"
    by blast
qed

text \<open>
  The claim as stated fails: here each of the four required names appears in some row,
  and \<open>getColumns\<close> returns an error, since the scan ends after the first row.
\<close>

theorem getColumns_names_spread_counterexample:
  "set requiredCols \<subseteq>
     set (concat [[''Course Listing''],
                  [''Meeting Patterns'', ''Course Listing'', ''Start Date'', ''End Date'']])
   \<and> getColumns [[''Course Listing''],
                  [''Meeting Patterns'', ''Course Listing'', ''Start Date'', ''End Date'']]
       = Inl (UnableToFindColumn ''Meeting Patterns'')"
  by (simp add: requiredCols_def getColumns_def initCols_def colKeys_def col_defs
      switchCell.simps)

theorem getColumns_fails_iff_header_incomplete_witness:
  "isl (getColumns [[''My Courses''], [''Course Listing'', ''Instructor'']])
   \<and> \<not> hasHeader [''My Courses''] \<and> \<not> hasHeader []
   \<and> set requiredCols \<subseteq> set [''Start Date'', ''Course Listing'', ''End Date'', ''Meeting Patterns'']
   \<and> snd (projr (getColumns ([[''My Courses''], []] @
              [''Start Date'', ''Course Listing'', ''End Date'', ''Meeting Patterns'']
              # [[''01-06-25'', ''CS 1101'', ''05-02-25'', '''']]))) = 3
   \<and> fst (projr (getColumns ([[''My Courses''], []] @
              [''Start Date'', ''Course Listing'', ''End Date'', ''Meeting Patterns'']
              # [[''01-06-25'', ''CS 1101'', ''05-02-25'', '''']])))
       = fst (projr (getColumns
              [[''Start Date'', ''Course Listing'', ''End Date'', ''Meeting Patterns'']]))"
  using getColumns_fails_iff_header_incomplete
    [of "[[''My Courses''], [''Course Listing'', ''Instructor'']]"
        "[[''My Courses''], []]"
        "[''Start Date'', ''Course Listing'', ''End Date'', ''Meeting Patterns'']"
        "[[''01-06-25'', ''CS 1101'', ''05-02-25'', '''']]"]
  by (auto simp: hasHeader_def recognised_def colKeys_def requiredCols_def col_defs)

section \<open>Row extraction: the data rows\<close>









text \<open>
  Claim C2 at an input without an Instructor header. The index read for the instructor
  is then the zero value of the map, 0, and \<open>GetCourses\<close> appends the first cell of the
  row, here the meeting pattern, to the description, where the claim has the Course
  Listing cell alone.
\<close>

theorem GetCourses_no_instructor_header_appends_cell_0:
  "GetCourses
      [[''Meeting Patterns'', ''Course Listing'', ''Start Date'', ''End Date''],
       [''M-W-F | 10:00 AM - 10:50 AM | Room 201'', ''CS 1101'', ''01-06-25'', ''05-02-25'']]
     = Inr [\<lparr>Description = ''CS 1101 - M-W-F | 10:00 AM - 10:50 AM | Room 201'',
              Meeting = ''M-W-F | 10:00 AM - 10:50 AM | Room 201'',
              StartDate = ''01-06-25'', EndDate = ''05-02-25''\<rparr>]"
  by (simp add: GetCourses_def getColumns_def initCols_def colKeys_def col_defs
      switchCell.simps mapGet_def sliceFrom_def courseOfRow_def index_def)

text \<open>
  Claim C9 at an input whose Instructor column comes after End Date. The second data row
  has no instructor, so it ends with its End Date cell: its four cells are more than the
  End Date index 3, the row is kept, and reading the instructor cell at index 4 is out
  of range.
\<close>

theorem GetCourses_reads_instructor_out_of_range:
  "GetCourses
      [[''Course Listing'', ''Meeting Patterns'', ''Start Date'', ''End Date'', ''Instructor''],
       [''CS 1101'', ''M-W-F | 10:00 AM - 10:50 AM | Room 201'', ''01-06-25'', ''05-02-25'',
        ''Ada''],
       [''PE 1001'', '''', ''01-06-25'', ''05-02-25'']]
     = Inl IndexOutOfRange"
  by (simp add: GetCourses_def getColumns_def initCols_def colKeys_def col_defs
      switchCell.simps mapGet_def sliceFrom_def courseOfRow_def index_def)

section \<open>The start date\<close>

lemmas weekday_defs = Sunday_def Monday_def Tuesday_def Wednesday_def Thursday_def Friday_def
  Saturday_def

lemma AddDays_AddDays: "AddDays (AddDays t a) b = AddDays t (a + b)"
  by (simp add: AddDays_def)

lemma AddDays_0: "AddDays t 0 = t"
  by (simp add: AddDays_def)

lemma advanceToValid_hit: "WeekdayOf t \<in> set validDays \<Longrightarrow> advanceToValid n validDays t = t"
  by (cases n) simp_all

lemma advanceToValid_miss:
  "(\<And>i. i < n \<Longrightarrow> WeekdayOf (AddDays t (int i)) \<notin> set validDays) \<Longrightarrow>
   advanceToValid n validDays t = AddDays t (int n)"
proof (induction n arbitrary: t)
  case 0
  show ?case by (simp add: AddDays_0)
next
  case (Suc n)
  from Suc.prems [of 0] have t: "WeekdayOf t \<notin> set validDays" by (simp add: AddDays_0)
  have "advanceToValid n validDays (AddDays t 1) = AddDays (AddDays t 1) (int n)"
  proof (rule Suc.IH)
    fix i assume "i < n"
    then have "WeekdayOf (AddDays t (int (Suc i))) \<notin> set validDays"
      by (intro Suc.prems) simp
    then show "WeekdayOf (AddDays (AddDays t 1) (int i)) \<notin> set validDays"
      by (simp add: AddDays_AddDays add.commute)
  qed
  then show ?case using t by (simp add: AddDays_AddDays add.commute)
qed

lemma ParseDate_example:
  "ParseDate ''01-06-25'' = Inr \<lparr>days = 20094, hour = 0, minute = 0, second = 0\<rparr>"
  by code_simp

lemma FormatDate_20094:
  "FormatDate \<lparr>days = 20094, hour = 0, minute = 0, second = 0\<rparr> = ''20250106''"
  by code_simp

lemma FormatDate_20101:
  "FormatDate \<lparr>days = 20101, hour = 0, minute = 0, second = 0\<rparr> = ''20250113''"
  by code_simp

text \<open>
  Claim C4, as the code has it. The loop of \<open>convertStartDate\<close> moves the date on in each
  of its seven rounds that finds no valid weekday; when none of the seven days from the
  parsed date on has a weekday of the set, the date returned is the one seven days after
  the parsed date.
\<close>

theorem convertStartDate_no_valid_day:
  assumes "ParseDate dateStr = Inr t"
    and "\<forall>i < 7. WeekdayOf (AddDays t (int i)) \<notin> set validDays"
  shows "convertStartDate dateStr validDays = Inr (FormatDate (AddDays t 7))"
proof -
  have "advanceToValid 7 validDays t = AddDays t (int 7)"
    using assms(2) by (intro advanceToValid_miss) simp
  then show ?thesis using assms(1) by (simp add: convertStartDate_def)
qed

text \<open>
  The claim as stated fails: with the empty set of weekdays the start date 6 January 2025
  comes back as 13 January 2025, not as the date parsed.
\<close>

theorem convertStartDate_empty_set_counterexample:
  "convertDate ''01-06-25'' = Inr ''20250106''
   \<and> convertStartDate ''01-06-25'' [] = Inr ''20250113''"
  by code_simp

theorem convertStartDate_no_valid_day_witness:
  "ParseDate ''01-06-25'' = Inr \<lparr>days = 20094, hour = 0, minute = 0, second = 0\<rparr>
   \<and> convertStartDate ''01-06-25'' [] = Inr ''20250113''"
  using convertStartDate_no_valid_day [OF ParseDate_example, of "[]"]
  by (simp add: ParseDate_example AddDays_def FormatDate_20101)

text \<open>
  Claim C8. When the weekday of the parsed date is in the set, \<open>convertStartDate\<close> returns
  the parsed date as it is, which is what \<open>convertDate\<close> returns; the loop leaves the date
  alone, so running it again on its result changes nothing.
\<close>

theorem convertStartDate_valid_day_unchanged:
  assumes "ParseDate dateStr = Inr t"
    and "WeekdayOf t \<in> set validDays"
  shows "convertStartDate dateStr validDays = Inr (FormatDate t)
    \<and> convertStartDate dateStr validDays = convertDate dateStr
    \<and> advanceToValid 7 validDays t = t
    \<and> advanceToValid 7 validDays (advanceToValid 7 validDays t) = advanceToValid 7 validDays t"
  using assms by (simp add: convertStartDate_def convertDate_def advanceToValid_hit)

theorem convertStartDate_valid_day_unchanged_witness:
  "ParseDate ''01-06-25'' = Inr \<lparr>days = 20094, hour = 0, minute = 0, second = 0\<rparr>
   \<and> WeekdayOf \<lparr>days = 20094, hour = 0, minute = 0, second = 0\<rparr> = Monday
   \<and> convertStartDate ''01-06-25'' [Monday, Wednesday, Friday] = Inr ''20250106''
   \<and> convertDate ''01-06-25'' = Inr ''20250106''"
proof -
  have w: "WeekdayOf \<lparr>days = 20094, hour = 0, minute = 0, second = 0\<rparr>
            \<in> set [Monday, Wednesday, Friday]"
    by (simp add: WeekdayOf_def weekday_defs)
  have m: "WeekdayOf \<lparr>days = 20094, hour = 0, minute = 0, second = 0\<rparr> = Monday"
    by (simp add: WeekdayOf_def weekday_defs)
  note u = convertStartDate_valid_day_unchanged [OF ParseDate_example w]
  note u1 = u [THEN conjunct1] and u2 = u [THEN conjunct2, THEN conjunct1]
  have a: "convertStartDate ''01-06-25'' [Monday, Wednesday, Friday] = Inr ''20250106''"
    using u1 by (simp only: FormatDate_20094)
  have "convertDate ''01-06-25'' = Inr ''20250106''"
    unfolding u2 [symmetric] by (rule a)
  with a m ParseDate_example show ?thesis by simp
qed

end
